theory Spec2Isabelle
  imports Complex_Main "HOL-Library.Sublist"
begin

section \<open>Values, documents and the state of the server\<close>

text \<open>
  The program is an Express application over three Mongoose models (Wine, User, Secret).
  An \<open>_id\<close> is written as its string of hexadecimal digits, a \<open>Date\<close> as the number of
  milliseconds it holds, a JavaScript \<open>Number\<close> as a real (the finite values only).
  A field of a JSON body is a \<open>json option\<close>: \<open>None\<close> is a field that is absent
  (\<open>undefined\<close> after destructuring). A string is the list of its UTF-16 code units, as
  JavaScript counts and compares them, and a \<open>char\<close> is one code unit (\<open>of_char\<close> is its
  number): the strings of the model are those whose code units are below 256.
\<close>

type_synonym objectid = string

type_synonym date = nat

datatype json =
    JNull
  | JBool bool
  | JNum real
  | JStr string
  | JArr "json list"
  | JObj "(string \<times> json) list"

text \<open>
  \<open>WineSchema\<close>. The fields that \<open>src/server.js\<close> and \<open>src/unnamed/part_001\<close>
  share are the base record; each variant of the schema extends it, so that a route whose
  code is the same in both files is modelled once, for every extension.
\<close>

record wine_base =
  wine_id :: objectid
  name :: string
  description :: string
  createdAt :: date

text \<open>The schema of \<open>part_001\<close>: \<open>price\<close> and \<open>country\<close> are not required.\<close>

record wine_doc = wine_base +
  price :: "real option"
  variety :: string
  country :: "string option"

text \<open>The schema of \<open>server.js\<close> and \<open>part_000\<close>: \<open>rating\<close> and \<open>kind\<close> are required.\<close>

record wine_v1_doc = wine_base +
  rating :: real
  kind :: string

text \<open>\<open>UserSchema\<close>: the three fields are always present in a stored document
  (\<open>username\<close> and \<open>password\<close> are required, \<open>accessToken\<close> has a default).\<close>

record user_doc =
  user_id :: objectid
  username :: string
  password :: string
  accessToken :: string

text \<open>\<open>SecretSchema\<close>: \<open>message\<close> is not required.\<close>

record secret_doc =
  secret_id :: objectid
  message :: "string option"
  secret_createdAt :: date
  user :: objectid

text \<open>
  The state: the three collections, whether the store answers (\<open>online\<close>; a query on a
  store that does not answer rejects), and \<open>default_createdAt\<close>, the value of the
  expression \<open>new Date()\<close> in the object literal of \<open>WineSchema\<close>, which JavaScript
  evaluates once, when the module is loaded.
\<close>

record 'w state =
  default_createdAt :: date
  online :: bool
  wines :: "'w list"
  users :: "user_doc list"
  secrets :: "secret_doc list"

text \<open>What the runtime hands to one request: the clock (\<open>new Date()\<close> called now), the
  \<open>_id\<close> of a new document, \<open>crypto.randomBytes(128).toString('hex')\<close> and
  \<open>bcrypt.genSaltSync()\<close>.\<close>

record env =
  now :: date
  ObjectId :: objectid
  randomBytes :: string
  genSaltSync :: string

datatype error =
    StoreError
  | CastError
  | ValidationError
  | DuplicateKey
  | ArgumentError
  | SyntaxError

text \<open>
  A response is \<open>res.status(status).json({success, response, message})\<close>; \<open>GET /wines\<close>
  names the payload \<open>body\<close>. A handler's result is a \<open>response option\<close>: \<open>None\<close> is
  a handler that ends without calling \<open>res\<close>, or that throws outside a \<open>try\<close> (the
  promise of the async handler rejects and Express sends nothing).
\<close>

datatype 'w payload =
    Wines "'w list"
  | WineDoc "'w option"
  | UserInfo string objectid string
  | Secrets "secret_doc list"
  | Text string
  | Err error
  | EmptyObject

record 'w response =
  status :: nat
  success :: bool
  response :: "'w payload"
  res_message :: "string option"

section \<open>The authentication gate and the secrets\<close>

text \<open>
  \<open>User.findOne({ accessToken: accessToken })\<close>: the first user whose token is the
  header's value. A missing header is \<open>undefined\<close>, which the driver sends as \<open>null\<close>;
  \<open>null\<close> matches a document without the field, and no user document is without it.
\<close>

definition User_findOne_accessToken :: "'w state \<Rightarrow> string option \<Rightarrow> error + user_doc option" where
  "User_findOne_accessToken db tok =
     (if online db then Inr (find (\<lambda>u. Some (accessToken u) = tok) (users db))
      else Inl StoreError)"

text \<open>A middleware either calls \<open>next()\<close> or answers itself.\<close>

datatype 'w gate = Next | Answered "'w response"

definition authenticateUser :: "'w state \<Rightarrow> string option \<Rightarrow> 'w gate" where
  "authenticateUser db authorization =
     (case User_findOne_accessToken db authorization of
        Inr (Some u) \<Rightarrow> Next
      | Inr None \<Rightarrow>
          Answered \<lparr>status = 401, success = False, response = Text ''Not authorized'',
                    res_message = None\<rparr>
      | Inl e \<Rightarrow>
          Answered \<lparr>status = 401, success = False, response = Err e, res_message = None\<rparr>)"

text \<open>\<open>Secret.find({ user: user._id })\<close>.\<close>

definition Secret_find_user :: "'w state \<Rightarrow> objectid \<Rightarrow> error + secret_doc list" where
  "Secret_find_user db uid =
     (if online db then Inr (filter (\<lambda>s. user s = uid) (secrets db)) else Inl StoreError)"

text \<open>
  \<open>new Secret({...}).save()\<close>. The store refuses a second document with the same
  \<open>_id\<close>. \<open>user\<close> is required and always given (\<open>user._id\<close>), so validation passes.
\<close>

definition Secret_save :: "'w state \<Rightarrow> secret_doc \<Rightarrow> error + 'w state" where
  "Secret_save db s =
     (if \<not> online db then Inl StoreError
      else if secret_id s \<in> set (map secret_id (secrets db)) then Inl DuplicateKey
      else Inr (db\<lparr>secrets := secrets db @ [s]\<rparr>))"

text \<open>
  The second \<open>app.get('/secrets', ...)\<close>. It has no \<open>try\<close>: a rejected query, or
  \<open>user._id\<close> on \<open>null\<close>, ends it without a response.
\<close>

definition get_secrets_handler :: "'w state \<Rightarrow> string option \<Rightarrow> 'w response option" where
  "get_secrets_handler db authorization =
     (case User_findOne_accessToken db authorization of
        Inl e \<Rightarrow> None
      | Inr None \<Rightarrow> None
      | Inr (Some u) \<Rightarrow>
          (case Secret_find_user db (user_id u) of
             Inl e \<Rightarrow> None
           | Inr found \<Rightarrow>
               Some \<lparr>status = 200, success = True, response = Secrets found,
                     res_message = None\<rparr>))"

text \<open>
  The second \<open>app.post('/secrets', ...)\<close>: the secret is saved and the handler ends;
  there is no call to \<open>res\<close> in it.
\<close>

definition post_secrets_handler ::
  "'w state \<Rightarrow> env \<Rightarrow> string option \<Rightarrow> string option \<Rightarrow> 'w response option \<times> 'w state" where
  "post_secrets_handler db e authorization msg =
     (case User_findOne_accessToken db authorization of
        Inl err \<Rightarrow> (None, db)
      | Inr None \<Rightarrow> (None, db)
      | Inr (Some u) \<Rightarrow>
          (case Secret_save db \<lparr>secret_id = ObjectId e, message = msg,
                                 secret_createdAt = now e, user = user_id u\<rparr> of
             Inl err \<Rightarrow> (None, db)
           | Inr db' \<Rightarrow> (None, db')))"

text \<open>The routes: \<open>authenticateUser\<close> is registered first, the handler second, so the
  handler runs only when the gate calls \<open>next()\<close>.\<close>

definition get_secrets :: "'w state \<Rightarrow> string option \<Rightarrow> 'w response option" where
  "get_secrets db authorization =
     (case authenticateUser db authorization of
        Next \<Rightarrow> get_secrets_handler db authorization
      | Answered r \<Rightarrow> Some r)"

definition post_secrets ::
  "'w state \<Rightarrow> env \<Rightarrow> string option \<Rightarrow> string option \<Rightarrow> 'w response option \<times> 'w state" where
  "post_secrets db e authorization msg =
     (case authenticateUser db authorization of
        Next \<Rightarrow> post_secrets_handler db e authorization msg
      | Answered r \<Rightarrow> (Some r, db))"

section \<open>Accounts\<close>

text \<open>
  The bcrypt library. Its native bindings on strings are parameters of the model:
  \<open>hash data salt\<close> is the hash string and \<open>compare data hash\<close> says whether \<open>data\<close> has
  that hash. The JavaScript wrappers \<open>hashSync\<close> and \<open>compareSync\<close> throw before calling
  them when \<open>data\<close> is \<open>null\<close> or \<open>undefined\<close>, and when it is not a string (a JSON body
  holds no Buffer); the stored hash is always a string.
\<close>

record bcrypt =
  hash :: "string \<Rightarrow> string \<Rightarrow> string"
  compare :: "string \<Rightarrow> string \<Rightarrow> bool"

definition hashSync :: "bcrypt \<Rightarrow> json option \<Rightarrow> string \<Rightarrow> error + string" where
  "hashSync bc data salt =
     (case data of
        Some (JStr s) \<Rightarrow> Inr (hash bc s salt)
      | _ \<Rightarrow> Inl ArgumentError)"

definition compareSync :: "bcrypt \<Rightarrow> json option \<Rightarrow> string \<Rightarrow> error + bool" where
  "compareSync bc data hashed =
     (case data of
        Some (JStr s) \<Rightarrow> Inr (compare bc s hashed)
      | _ \<Rightarrow> Inl ArgumentError)"

text \<open>
  \<open>new User({ username, password }).save()\<close>, with \<open>password\<close> the value handed to the
  constructor (the route hands it the hash). The validators of \<open>UserSchema\<close> run first
  (\<open>required\<close> refuses a missing and an empty string), then the store inserts, refusing
  a second \<open>_id\<close> and, by the unique index, a second \<open>username\<close>. A username of the body
  is a string or absent. Lengths count the characters of the string.
\<close>

definition User_save ::
  "'w state \<Rightarrow> env \<Rightarrow> string option \<Rightarrow> string \<Rightarrow> error + (user_doc \<times> 'w state)" where
  "User_save db e uname pw =
     (case uname of
        None \<Rightarrow> Inl ValidationError
      | Some n \<Rightarrow>
          if n = [] \<or> length n < 2 \<or> 20 < length n \<or> pw = [] \<or> length pw < 5
          then Inl ValidationError
          else if \<not> online db then Inl StoreError
          else if ObjectId e \<in> set (map user_id (users db)) \<or> n \<in> set (map username (users db))
          then Inl DuplicateKey
          else
            let newUser = \<lparr>user_id = ObjectId e, username = n, password = pw,
                            accessToken = randomBytes e\<rparr>
            in Inr (newUser, db\<lparr>users := users db @ [newUser]\<rparr>))"

text \<open>\<open>app.post('/register', ...)\<close>: everything is inside the \<open>try\<close>.\<close>

definition post_register ::
  "bcrypt \<Rightarrow> 'w state \<Rightarrow> env \<Rightarrow> string option \<Rightarrow> json option \<Rightarrow> 'w response \<times> 'w state" where
  "post_register bc db e uname pw =
     (case hashSync bc pw (genSaltSync e) of
        Inl err \<Rightarrow>
          (\<lparr>status = 400, success = False, response = Err err, res_message = None\<rparr>, db)
      | Inr hashed \<Rightarrow>
          (case User_save db e uname hashed of
             Inl err \<Rightarrow>
               (\<lparr>status = 400, success = False, response = Err err, res_message = None\<rparr>, db)
           | Inr (newUser, db') \<Rightarrow>
               (\<lparr>status = 201, success = True,
                 response = UserInfo (username newUser) (user_id newUser) (accessToken newUser),
                 res_message = None\<rparr>, db')))"

text \<open>\<open>User.findOne({ username })\<close>; an absent username is matched like an absent
  token.\<close>

definition User_findOne_username :: "'w state \<Rightarrow> string option \<Rightarrow> error + user_doc option" where
  "User_findOne_username db uname =
     (if online db then Inr (find (\<lambda>u. Some (username u) = uname) (users db))
      else Inl StoreError)"

text \<open>
  \<open>app.post('/login', ...)\<close>. In \<open>user && bcrypt.compareSync(password, user.password)\<close>
  the comparison is not evaluated when there is no user; when it throws, the \<open>catch\<close>
  answers 500.
\<close>

definition post_login :: "bcrypt \<Rightarrow> 'w state \<Rightarrow> string option \<Rightarrow> json option \<Rightarrow> 'w response" where
  "post_login bc db uname pw =
     (case User_findOne_username db uname of
        Inl err \<Rightarrow> \<lparr>status = 500, success = False, response = Err err, res_message = None\<rparr>
      | Inr None \<Rightarrow>
          \<lparr>status = 404, success = False, response = Text ''User not found'', res_message = None\<rparr>
      | Inr (Some u) \<Rightarrow>
          (case compareSync bc pw (password u) of
             Inl err \<Rightarrow>
               \<lparr>status = 500, success = False, response = Err err, res_message = None\<rparr>
           | Inr True \<Rightarrow>
               \<lparr>status = 200, success = True,
                 response = UserInfo (username u) (user_id u) (accessToken u),
                 res_message = None\<rparr>
           | Inr False \<Rightarrow>
               \<lparr>status = 404, success = False, response = Text ''User not found'',
                 res_message = None\<rparr>))"

section \<open>Wines\<close>

text \<open>
  The \<open>trim\<close> setter of \<open>description\<close> is \<open>String.prototype.trim\<close>: it removes, at
  both ends, the code units that ECMAScript calls WhiteSpace or LineTerminator. They are
  tab, line feed, vertical tab, form feed, carriage return, space, U+00A0 (no-break
  space), U+1680, U+2000 to U+200A, U+2028, U+2029, U+202F, U+205F, U+3000 and U+FEFF.
\<close>

definition white_space :: "nat list" where
  "white_space =
     [0x0009, 0x000A, 0x000B, 0x000C, 0x000D, 0x0020, 0x00A0, 0x1680,
      0x2000, 0x2001, 0x2002, 0x2003, 0x2004, 0x2005, 0x2006, 0x2007, 0x2008, 0x2009, 0x200A,
      0x2028, 0x2029, 0x202F, 0x205F, 0x3000, 0xFEFF]"

definition is_space :: "char \<Rightarrow> bool" where
  "is_space c = (of_char c \<in> set white_space)"

definition trim :: "string \<Rightarrow> string" where
  "trim s = rev (dropWhile is_space (rev (dropWhile is_space s)))"

text \<open>
  \<open>new Wine({ name, description, rating, variety }).save()\<close> in \<open>part_001\<close>. The schema
  has no \<open>rating\<close>, so the document gets none; it gets no \<open>price\<close> and no \<open>country\<close>
  either, since the route passes none. \<open>createdAt\<close> is the schema's default, the Date
  built when the schema was. The body's fields are strings or absent.
\<close>

definition Wine_save ::
  "wine_doc state \<Rightarrow> env \<Rightarrow> string option \<Rightarrow> string option \<Rightarrow> string option \<Rightarrow>
     error + (wine_doc \<times> wine_doc state)" where
  "Wine_save db e nm descr var =
     (case (nm, descr, var) of
        (Some n, Some d, Some v) \<Rightarrow>
          if n = [] \<or> v = [] \<or> trim d = [] \<or> length (trim d) < 2 \<or> 300 < length (trim d)
          then Inl ValidationError
          else if \<not> online db then Inl StoreError
          else if ObjectId e \<in> set (map wine_id (wines db)) \<or> n \<in> set (map name (wines db))
          then Inl DuplicateKey
          else
            let newWine = \<lparr>wine_id = ObjectId e, name = n, description = trim d,
                            createdAt = default_createdAt db, price = None, variety = v,
                            country = None\<rparr>
            in Inr (newWine, db\<lparr>wines := wines db @ [newWine]\<rparr>)
      | _ \<Rightarrow> Inl ValidationError)"

text \<open>\<open>app.post('/wines', ...)\<close>.\<close>

definition post_wines ::
  "wine_doc state \<Rightarrow> env \<Rightarrow> string option \<Rightarrow> string option \<Rightarrow> string option \<Rightarrow>
     wine_doc response \<times> wine_doc state" where
  "post_wines db e nm descr var =
     (case Wine_save db e nm descr var of
        Inr (newWineItem, db') \<Rightarrow>
          (\<lparr>status = 201, success = True, response = WineDoc (Some newWineItem),
            res_message = Some ''Wine item successfully created''\<rparr>, db')
      | Inl err \<Rightarrow>
          (\<lparr>status = 418, success = False, response = Err err,
            res_message = Some ''Error occured could not create wine item''\<rparr>, db))"

text \<open>
  \<open>Wine.findByIdAndUpdate(id, { description: newDescription }, { new: true })\<close>, the
  same call in \<open>server.js\<close> and \<open>part_001\<close>. The \<open>id\<close> is the path's \<open>:id\<close> after the
  cast to an ObjectId: \<open>None\<close> when the cast fails. \<open>newDescription\<close> is a string; the
  update sets \<open>description\<close> to it, through the schema's \<open>trim\<close>, in the first document
  with that \<open>_id\<close>, and the call returns the document as updated, or \<open>null\<close> when none
  has the \<open>_id\<close>. Update validators are off (the default).
\<close>

fun update_first :: "('a \<Rightarrow> bool) \<Rightarrow> ('a \<Rightarrow> 'a) \<Rightarrow> 'a list \<Rightarrow> 'a list" where
  "update_first P f [] = []"
| "update_first P f (x # xs) = (if P x then f x # xs else x # update_first P f xs)"

definition Wine_findByIdAndUpdate ::
  "('a wine_base_scheme) state \<Rightarrow> objectid option \<Rightarrow> string \<Rightarrow>
     error + ('a wine_base_scheme option \<times> ('a wine_base_scheme) state)" where
  "Wine_findByIdAndUpdate db id' newDescription =
     (case id' of
        None \<Rightarrow> Inl CastError
      | Some i \<Rightarrow>
          if \<not> online db then Inl StoreError
          else Inr
            (map_option (\<lambda>w. w\<lparr>description := trim newDescription\<rparr>)
               (find (\<lambda>w. wine_id w = i) (wines db)),
             db\<lparr>wines := update_first (\<lambda>w. wine_id w = i)
                    (\<lambda>w. w\<lparr>description := trim newDescription\<rparr>) (wines db)\<rparr>))"

text \<open>\<open>app.patch('/wines/:id', ...)\<close>.\<close>

definition patch_wines ::
  "('a wine_base_scheme) state \<Rightarrow> objectid option \<Rightarrow> string \<Rightarrow>
     ('a wine_base_scheme) response \<times> ('a wine_base_scheme) state" where
  "patch_wines db id' newDescription =
     (case Wine_findByIdAndUpdate db id' newDescription of
        Inr (wineItem, db') \<Rightarrow>
          (\<lparr>status = 200, success = True, response = WineDoc wineItem,
            res_message = Some ''Updated successfully''\<rparr>, db')
      | Inl err \<Rightarrow>
          (\<lparr>status = 400, success = False, response = Err err,
            res_message = Some ''Did not updated successfully''\<rparr>, db))"

subsection \<open>The list with its filters\<close>

text \<open>
  \<open>new RegExp(variety)\<close>. The characters with a meaning in a pattern are
  \<open>^ $ \ . * + ? ( ) [ ] { } |\<close>. Two kinds of pattern are modelled here. A pattern
  made of other characters only is searched anywhere in the text, each character standing
  for itself, case-sensitively. A pattern that is \<open>^\<close> followed by such characters
  matches a text that starts with them (there is no \<open>m\<close> flag). Every other pattern is
  left to \<open>engine\<close>, a parameter: \<open>None\<close> when the pattern is not well formed (the
  constructor throws a SyntaxError), else its matcher.
  \<open>new RegExp(undefined)\<close> is the empty pattern.
\<close>

definition is_syntax_char :: "char \<Rightarrow> bool" where
  "is_syntax_char c =
     (c \<in> set [CHR ''^'', CHR ''$'', CHR 0x5C, CHR ''.'', CHR ''*'', CHR ''+'', CHR ''?'',
               CHR ''('', CHR '')'', CHR ''['', CHR '']'', CHR ''{'', CHR ''}'', CHR ''|''])"

fun matches_here :: "string \<Rightarrow> string \<Rightarrow> bool" where
  "matches_here [] s = True"
| "matches_here (a # as) [] = False"
| "matches_here (a # as) (c # s) = (a = c \<and> matches_here as s)"

fun search :: "string \<Rightarrow> string \<Rightarrow> bool" where
  "search as [] = matches_here as []"
| "search as (c # s) = (matches_here as (c # s) \<or> search as s)"

definition RegExp ::
  "(string \<Rightarrow> (string \<Rightarrow> bool) option) \<Rightarrow> string option \<Rightarrow> error + (string \<Rightarrow> bool)" where
  "RegExp engine pattern =
     (let p = (case pattern of None \<Rightarrow> [] | Some s \<Rightarrow> s) in
      if list_all (\<lambda>c. \<not> is_syntax_char c) p then Inr (search p)
      else if p \<noteq> [] \<and> hd p = CHR ''^'' \<and> list_all (\<lambda>c. \<not> is_syntax_char c) (tl p)
      then Inr (matches_here (tl p))
      else (case engine p of None \<Rightarrow> Inl SyntaxError | Some m \<Rightarrow> Inr m))"

text \<open>
  The operand of \<open>$gt\<close> is \<open>price ? price : 0\<close>: the query string's text when it is not
  empty, else the number 0. Mongoose casts it to a Number: a number is itself, a string
  \<open>s\<close> is \<open>Number(s)\<close>, a parameter of the model (\<open>None\<close> for NaN), and NaN is a CastError.
\<close>

datatype operand = NumberValue real | StringValue string

definition priceQuery :: "string option \<Rightarrow> operand" where
  "priceQuery price' =
     (case price' of
        None \<Rightarrow> NumberValue 0
      | Some s \<Rightarrow> if s = [] then NumberValue 0 else StringValue s)"

definition castNumber :: "(string \<Rightarrow> real option) \<Rightarrow> operand \<Rightarrow> error + real" where
  "castNumber Number val =
     (case val of
        NumberValue r \<Rightarrow> Inr r
      | StringValue s \<Rightarrow> (case Number s of None \<Rightarrow> Inl CastError | Some r \<Rightarrow> Inr r))"

text \<open>
  \<open>Wine.find({ variety: varietyRegex, price: { $gt: ... } })\<close>: the documents whose
  \<open>variety\<close> the pattern matches and whose \<open>price\<close> is a number greater than the operand.
  \<open>$gt\<close> matches no document without a \<open>price\<close>.
\<close>

definition Wine_find ::
  "(string \<Rightarrow> real option) \<Rightarrow> wine_doc state \<Rightarrow> (string \<Rightarrow> bool) \<Rightarrow> operand \<Rightarrow>
     error + wine_doc list" where
  "Wine_find Number db varietyRegex gt =
     (case castNumber Number gt of
        Inl err \<Rightarrow> Inl err
      | Inr t \<Rightarrow>
          if online db
          then Inr (filter (\<lambda>w. varietyRegex (variety w)
                      \<and> (case price w of None \<Rightarrow> False | Some p \<Rightarrow> t < p)) (wines db))
          else Inl StoreError)"

text \<open>
  \<open>app.get('/wines', ...)\<close> of \<open>part_001\<close>. The RegExp is built before the \<open>try\<close>, so its
  SyntaxError is not caught. An array is truthy, so the \<open>else\<close> of
  \<open>if (searchResultFromDB)\<close> is never taken.
\<close>

definition get_wines ::
  "(string \<Rightarrow> (string \<Rightarrow> bool) option) \<Rightarrow> (string \<Rightarrow> real option) \<Rightarrow> wine_doc state \<Rightarrow>
     string option \<Rightarrow> string option \<Rightarrow> wine_doc response option" where
  "get_wines engine Number db variety' price' =
     (case RegExp engine variety' of
        Inl err \<Rightarrow> None
      | Inr varietyRegex \<Rightarrow>
          (case Wine_find Number db varietyRegex (priceQuery price') of
             Inr searchResultFromDB \<Rightarrow>
               Some \<lparr>status = 200, success = True, response = Wines searchResultFromDB,
                     res_message = None\<rparr>
           | Inl err \<Rightarrow>
               Some \<lparr>status = 500, success = False, response = EmptyObject,
                     res_message = None\<rparr>))"

section \<open>A small state to run the routes on\<close>

text \<open>
  A stand-in for bcrypt, to run the account routes: the hash is the salt (four
  characters) followed by the data, and comparing hashes the data again with the salt
  that the stored hash starts with.
\<close>

definition toy_bcrypt :: bcrypt where
  "toy_bcrypt = \<lparr>hash = (\<lambda>data salt. salt @ data),
                  compare = (\<lambda>data hashed. hashed = take 4 hashed @ data)\<rparr>"

definition alice :: user_doc where
  "alice = \<lparr>user_id = ''64a1'', username = ''alice'', password = ''saltwonderland'',
            accessToken = ''token-a''\<rparr>"

definition bob :: user_doc where
  "bob = \<lparr>user_id = ''64b2'', username = ''bob'', password = ''saltbuilder'',
          accessToken = ''token-b''\<rparr>"

definition bobs_secret :: secret_doc where
  "bobs_secret = \<lparr>secret_id = ''5e01'', message = Some ''bob was here'',
                  secret_createdAt = 1500, user = ''64b2''\<rparr>"

definition tinto :: wine_doc where
  "tinto = \<lparr>wine_id = ''77a0'', name = ''Tinto'', description = ''A red from Toro'',
            createdAt = 1000, price = Some 20, variety = ''red'', country = Some ''Spain''\<rparr>"

definition fresh_wine :: wine_doc where
  "fresh_wine = \<lparr>wine_id = ''77a1'', name = ''Fresh'', description = ''Posted through the API'',
                 createdAt = 1000, price = None, variety = ''white'', country = None\<rparr>"

definition albarino :: wine_doc where
  "albarino = \<lparr>wine_id = ''77a2'', name = ''Albarino'', description = ''A white from Galicia'',
               createdAt = 1000, price = Some 12, variety = ''white'', country = Some ''Spain''\<rparr>"

definition demo :: "wine_doc state" where
  "demo = \<lparr>default_createdAt = 1000, online = True, wines = [tinto, fresh_wine, albarino],
           users = [alice, bob], secrets = [bobs_secret]\<rparr>"

definition house_red :: wine_v1_doc where
  "house_red = \<lparr>wine_id = ''11c0'', name = ''House red'', description = ''Plain'',
                createdAt = 900, rating = 3, kind = ''red''\<rparr>"

definition demo_v1 :: "wine_v1_doc state" where
  "demo_v1 = \<lparr>default_createdAt = 900, online = True, wines = [house_red], users = [],
              secrets = []\<rparr>"

text \<open>Stand-ins for the two parameters of the list: an engine that knows no pattern, and
  \<open>Number\<close> on the one numeral the examples use.\<close>

definition no_engine :: "string \<Rightarrow> (string \<Rightarrow> bool) option" where
  "no_engine p = None"

definition Number_10 :: "string \<Rightarrow> real option" where
  "Number_10 s = (if s = ''10'' then Some 10 else None)"

definition request_env :: env where
  "request_env = \<lparr>now = 2000, ObjectId = ''9f00'', randomBytes = ''c0ffee'',
                  genSaltSync = ''salt''\<rparr>"

definition later_env :: env where
  "later_env = \<lparr>now = 3000, ObjectId = ''9f01'', randomBytes = ''decade'',
                genSaltSync = ''pepp''\<rparr>"

section \<open>Properties of the gate\<close>

lemma find_None_iff_all: "find P xs = None \<longleftrightarrow> (\<forall>x\<in>set xs. \<not> P x)"
  by (induction xs) auto

text \<open>
  C1. When the Authorization header (missing or present) is the accessToken of no stored
  user, or when the token lookup fails because the store does not answer, the gate
  answers 401 itself and does not call \<open>next()\<close>: both secrets routes return that 401
  response, and \<open>POST /secrets\<close> leaves the state as it was. The failed lookup is a 401
  too, with the error as payload.
\<close>

theorem authenticateUser_closed:
  assumes "\<not> online db \<or> (\<forall>u\<in>set (users db). Some (accessToken u) \<noteq> authorization)"
  shows "authenticateUser db authorization =
           Answered \<lparr>status = 401, success = False,
             response = (if online db then Text ''Not authorized'' else Err StoreError),
             res_message = None\<rparr>
         \<and> get_secrets db authorization =
           Some \<lparr>status = 401, success = False,
             response = (if online db then Text ''Not authorized'' else Err StoreError),
             res_message = None\<rparr>
         \<and> post_secrets db e authorization msg =
           (Some \<lparr>status = 401, success = False,
              response = (if online db then Text ''Not authorized'' else Err StoreError),
              res_message = None\<rparr>, db)"
proof (cases "online db")
  case True
  with assms have "find (\<lambda>u. Some (accessToken u) = authorization) (users db) = None"
    by (simp add: find_None_iff_all)
  with True show ?thesis
    by (simp add: authenticateUser_def User_findOne_accessToken_def get_secrets_def
        post_secrets_def)
next
  case False
  then show ?thesis
    by (simp add: authenticateUser_def User_findOne_accessToken_def get_secrets_def
        post_secrets_def)
qed

theorem authenticateUser_closed_witness:
  "list_all (\<lambda>u. Some (accessToken u) \<noteq> Some ''token-z'') (users demo)
   \<and> authenticateUser demo (Some ''token-z'')
       = Answered \<lparr>status = 401, success = False, response = Text ''Not authorized'',
                   res_message = None\<rparr>
   \<and> get_secrets demo None
       = Some \<lparr>status = 401, success = False, response = Text ''Not authorized'',
               res_message = None\<rparr>
   \<and> post_secrets (demo\<lparr>online := False\<rparr>) request_env (Some ''token-a'') (Some ''hi'')
       = (Some \<lparr>status = 401, success = False, response = Err StoreError,
                res_message = None\<rparr>, demo\<lparr>online := False\<rparr>)"
proof -
  have h1: "\<not> online demo
      \<or> (\<forall>u\<in>set (users demo). Some (accessToken u) \<noteq> Some ''token-z'')"
    by (simp add: demo_def alice_def bob_def)
  have h2: "\<not> online demo \<or> (\<forall>u\<in>set (users demo). Some (accessToken u) \<noteq> None)"
    by simp
  have h3: "\<not> online (demo\<lparr>online := False\<rparr>)
      \<or> (\<forall>u\<in>set (users (demo\<lparr>online := False\<rparr>)). Some (accessToken u) \<noteq> Some ''token-a'')"
    by simp
  have on: "online demo"
    by (simp add: demo_def)
  have "list_all (\<lambda>u. Some (accessToken u) \<noteq> Some ''token-z'') (users demo)"
    by (simp add: demo_def alice_def bob_def)
  moreover have "authenticateUser demo (Some ''token-z'')
       = Answered \<lparr>status = 401, success = False, response = Text ''Not authorized'',
                   res_message = None\<rparr>"
    using authenticateUser_closed [OF h1, of request_env None] on by simp
  moreover have "get_secrets demo None
       = Some \<lparr>status = 401, success = False, response = Text ''Not authorized'',
               res_message = None\<rparr>"
    using authenticateUser_closed [OF h2, of request_env None] on by simp
  moreover have "post_secrets (demo\<lparr>online := False\<rparr>) request_env (Some ''token-a'') (Some ''hi'')
       = (Some \<lparr>status = 401, success = False, response = Err StoreError,
                res_message = None\<rparr>, demo\<lparr>online := False\<rparr>)"
    using authenticateUser_closed [OF h3, of request_env "Some ''hi''"] by simp
  ultimately show ?thesis
    by blast
qed

section \<open>Properties of the secrets routes\<close>

lemma authenticateUser_Next:
  "online db \<Longrightarrow> find (\<lambda>u. Some (accessToken u) = authorization) (users db) = Some u \<Longrightarrow>
     authenticateUser db authorization = Next"
  by (simp add: authenticateUser_def User_findOne_accessToken_def)

lemma get_secrets_authenticated:
  "online db \<Longrightarrow> find (\<lambda>u. Some (accessToken u) = authorization) (users db) = Some u \<Longrightarrow>
     get_secrets db authorization =
       Some \<lparr>status = 200, success = True,
             response = Secrets (filter (\<lambda>s. user s = user_id u) (secrets db)),
             res_message = None\<rparr>"
  by (simp add: get_secrets_def authenticateUser_Next get_secrets_handler_def
      User_findOne_accessToken_def Secret_find_user_def)

lemma post_secrets_authenticated:
  assumes "online db"
    and "find (\<lambda>u. Some (accessToken u) = authorization) (users db) = Some u"
    and "ObjectId e \<notin> set (map secret_id (secrets db))"
  shows "post_secrets db e authorization msg =
           (None, db\<lparr>secrets := secrets db @
              [\<lparr>secret_id = ObjectId e, message = msg, secret_createdAt = now e,
                user = user_id u\<rparr>]\<rparr>)"
  using assms
  by (simp add: post_secrets_def authenticateUser_Next post_secrets_handler_def
      User_findOne_accessToken_def Secret_save_def)

text \<open>
  C2. When the gate lets a \<open>GET /secrets\<close> through, the response is 200 with exactly
  the stored secrets whose \<open>user\<close> is the \<open>_id\<close> of the user the token resolves to, in
  the store's order. After a \<open>POST /secrets\<close> with message \<open>m\<close> under the same
  credential (the new \<open>_id\<close> being a new one), \<open>GET /secrets\<close> returns those same secrets
  followed by the new one, whose message is \<open>m\<close>.
\<close>

theorem get_secrets_own:
  assumes "online db"
    and "find (\<lambda>u. Some (accessToken u) = authorization) (users db) = Some u"
  shows "get_secrets db authorization =
           Some \<lparr>status = 200, success = True,
                 response = Secrets (filter (\<lambda>s. user s = user_id u) (secrets db)),
                 res_message = None\<rparr>
         \<and> (ObjectId e \<notin> set (map secret_id (secrets db)) \<longrightarrow>
              get_secrets (snd (post_secrets db e authorization (Some m))) authorization =
                Some \<lparr>status = 200, success = True,
                      response = Secrets (filter (\<lambda>s. user s = user_id u) (secrets db) @
                        [\<lparr>secret_id = ObjectId e, message = Some m, secret_createdAt = now e,
                          user = user_id u\<rparr>]),
                      res_message = None\<rparr>)"
proof (intro conjI impI)
  show "get_secrets db authorization =
           Some \<lparr>status = 200, success = True,
                 response = Secrets (filter (\<lambda>s. user s = user_id u) (secrets db)),
                 res_message = None\<rparr>"
    using assms by (rule get_secrets_authenticated)
next
  assume new: "ObjectId e \<notin> set (map secret_id (secrets db))"
  let ?s = "\<lparr>secret_id = ObjectId e, message = Some m, secret_createdAt = now e,
             user = user_id u\<rparr>"
  let ?db' = "db\<lparr>secrets := secrets db @ [?s]\<rparr>"
  have post: "snd (post_secrets db e authorization (Some m)) = ?db'"
    using post_secrets_authenticated [OF assms new] by simp
  have "online ?db'" and "find (\<lambda>u. Some (accessToken u) = authorization) (users ?db') = Some u"
    using assms by simp_all
  then have "get_secrets ?db' authorization =
       Some \<lparr>status = 200, success = True,
             response = Secrets (filter (\<lambda>s. user s = user_id u) (secrets ?db')),
             res_message = None\<rparr>"
    by (rule get_secrets_authenticated)
  with post show "get_secrets (snd (post_secrets db e authorization (Some m))) authorization =
       Some \<lparr>status = 200, success = True,
             response = Secrets (filter (\<lambda>s. user s = user_id u) (secrets db) @ [?s]),
             res_message = None\<rparr>"
    by simp
qed

theorem get_secrets_own_witness:
  "get_secrets demo (Some ''token-a'') =
     Some \<lparr>status = 200, success = True, response = Secrets [], res_message = None\<rparr>
   \<and> get_secrets (snd (post_secrets demo request_env (Some ''token-a'') (Some ''I am a genius'')))
        (Some ''token-a'') =
     Some \<lparr>status = 200, success = True,
           response = Secrets [\<lparr>secret_id = ''9f00'', message = Some ''I am a genius'',
                                secret_createdAt = 2000, user = ''64a1''\<rparr>],
           res_message = None\<rparr>"
proof -
  have on: "online demo"
    by (simp add: demo_def)
  have who: "find (\<lambda>u. Some (accessToken u) = Some ''token-a'') (users demo) = Some alice"
    by (simp add: demo_def alice_def)
  have new: "ObjectId request_env \<notin> set (map secret_id (secrets demo))"
    by (simp add: demo_def request_env_def bobs_secret_def)
  have own: "filter (\<lambda>s. user s = user_id alice) (secrets demo) = []"
    by (simp add: demo_def alice_def bobs_secret_def)
  show ?thesis
    using get_secrets_own [OF on who, of request_env "''I am a genius''"] new own
    by (simp add: request_env_def alice_def)
qed

text \<open>
  \<open>POST /secrets\<close> never answers 201: its handler has no call to \<open>res\<close>, so the only
  response the route can send is the gate's 401.
\<close>

lemma post_secrets_handler_silent: "fst (post_secrets_handler db e authorization msg) = None"
  by (simp add: post_secrets_handler_def split: sum.splits option.splits)

lemma post_secrets_never_201:
  "fst (post_secrets db e authorization msg) = Some r \<Longrightarrow> status r = 401"
  by (auto simp: post_secrets_def authenticateUser_def post_secrets_handler_silent
      split: gate.splits sum.splits option.splits)

text \<open>
  C9. An authenticated \<open>POST /secrets\<close> with the message \<open>I am a genius\<close>, on the small
  state: the secret is stored with the caller's id, and no response is sent (the claim
  says 201 with the created secret).
\<close>

theorem post_secrets_no_response:
  "post_secrets demo request_env (Some ''token-a'') (Some ''I am a genius'') =
     (None, demo\<lparr>secrets := [bobs_secret,
        \<lparr>secret_id = ''9f00'', message = Some ''I am a genius'', secret_createdAt = 2000,
          user = ''64a1''\<rparr>]\<rparr>)"
proof -
  have on: "online demo"
    by (simp add: demo_def)
  have who: "find (\<lambda>u. Some (accessToken u) = Some ''token-a'') (users demo) = Some alice"
    by (simp add: demo_def alice_def)
  have new: "ObjectId request_env \<notin> set (map secret_id (secrets demo))"
    by (simp add: demo_def request_env_def bobs_secret_def)
  show ?thesis
    using post_secrets_authenticated [OF on who new, of "Some ''I am a genius''"]
    by (simp add: request_env_def alice_def demo_def)
qed

section \<open>Properties of the account routes\<close>

lemma post_login_unknown_user:
  "online db \<Longrightarrow> find (\<lambda>u. Some (username u) = uname) (users db) = None \<Longrightarrow>
     post_login bc db uname pw =
       \<lparr>status = 404, success = False, response = Text ''User not found'', res_message = None\<rparr>"
  by (simp add: post_login_def User_findOne_username_def)

lemma post_login_known_user:
  "online db \<Longrightarrow> find (\<lambda>u. Some (username u) = uname) (users db) = Some u \<Longrightarrow>
     post_login bc db uname pw =
       (case compareSync bc pw (password u) of
          Inl err \<Rightarrow> \<lparr>status = 500, success = False, response = Err err, res_message = None\<rparr>
        | Inr True \<Rightarrow>
            \<lparr>status = 200, success = True,
              response = UserInfo (username u) (user_id u) (accessToken u), res_message = None\<rparr>
        | Inr False \<Rightarrow>
            \<lparr>status = 404, success = False, response = Text ''User not found'',
              res_message = None\<rparr>)"
  by (simp add: post_login_def User_findOne_username_def)

text \<open>
  C6. With the store answering: a login with the username of a stored user and a
  password (a string) that does not verify against the stored hash, and a login with a
  username of no stored user (with any password field, or with no username at all), get
  the same response, 404 with \<open>User not found\<close>.
\<close>

theorem post_login_same_failure:
  assumes "online db"
    and "find (\<lambda>u. Some (username u) = Some n) (users db) = Some u"
    and "\<not> compare bc p (password u)"
    and "find (\<lambda>u. Some (username u) = other) (users db) = None"
  shows "post_login bc db (Some n) (Some (JStr p)) =
           \<lparr>status = 404, success = False, response = Text ''User not found'',
             res_message = None\<rparr>
         \<and> post_login bc db other pw = post_login bc db (Some n) (Some (JStr p))"
proof -
  have wrong: "post_login bc db (Some n) (Some (JStr p)) =
           \<lparr>status = 404, success = False, response = Text ''User not found'',
             res_message = None\<rparr>"
    using assms(1-3) by (simp add: post_login_known_user compareSync_def)
  have "post_login bc db other pw =
           \<lparr>status = 404, success = False, response = Text ''User not found'',
             res_message = None\<rparr>"
    using assms(1,4) by (rule post_login_unknown_user)
  with wrong show ?thesis by simp
qed

theorem post_login_same_failure_witness:
  "post_login toy_bcrypt demo (Some ''alice'') (Some (JStr ''rabbit'')) =
     \<lparr>status = 404, success = False, response = Text ''User not found'', res_message = None\<rparr>
   \<and> post_login toy_bcrypt demo (Some ''mallory'') (Some (JStr ''wonderland'')) =
       post_login toy_bcrypt demo (Some ''alice'') (Some (JStr ''rabbit''))
   \<and> post_login toy_bcrypt demo (Some ''alice'') (Some (JStr ''wonderland'')) =
       \<lparr>status = 200, success = True, response = UserInfo ''alice'' ''64a1'' ''token-a'',
         res_message = None\<rparr>"
proof -
  have on: "online demo"
    by (simp add: demo_def)
  have who: "find (\<lambda>u. Some (username u) = Some ''alice'') (users demo) = Some alice"
    by (simp add: demo_def alice_def)
  have wrong: "\<not> compare toy_bcrypt ''rabbit'' (password alice)"
    by (simp add: toy_bcrypt_def alice_def)
  have nobody: "find (\<lambda>u. Some (username u) = Some ''mallory'') (users demo) = None"
    by (simp add: demo_def alice_def bob_def)
  have right: "post_login toy_bcrypt demo (Some ''alice'') (Some (JStr ''wonderland'')) =
       \<lparr>status = 200, success = True, response = UserInfo ''alice'' ''64a1'' ''token-a'',
         res_message = None\<rparr>"
    by (simp add: post_login_known_user [OF on who] compareSync_def toy_bcrypt_def alice_def)
  show ?thesis
    using post_login_same_failure [OF on who wrong nobody, of "Some (JStr ''wonderland'')"] right
    by simp
qed

text \<open>
  C10. With the store answering: a login with the username of a stored user whose body
  has no password, or a password that is not a string, is answered 500 (the error that
  \<open>compareSync\<close> throws), which is not the 404 of a wrong password.
\<close>

theorem post_login_malformed_password:
  assumes "online db"
    and "find (\<lambda>u. Some (username u) = Some n) (users db) = Some u"
    and "\<forall>s. pw \<noteq> Some (JStr s)"
  shows "post_login bc db (Some n) pw =
           \<lparr>status = 500, success = False, response = Err ArgumentError, res_message = None\<rparr>
         \<and> (\<not> compare bc p (password u) \<longrightarrow>
              status (post_login bc db (Some n) (Some (JStr p))) = 404
              \<and> post_login bc db (Some n) pw \<noteq> post_login bc db (Some n) (Some (JStr p)))"
proof -
  have thrown: "compareSync bc pw (password u) = Inl ArgumentError"
    using assms(3) by (auto simp: compareSync_def split: option.splits json.splits)
  have malformed: "post_login bc db (Some n) pw =
           \<lparr>status = 500, success = False, response = Err ArgumentError, res_message = None\<rparr>"
    using assms(1,2) thrown by (simp add: post_login_known_user)
  have wrong: "status (post_login bc db (Some n) (Some (JStr p))) = 404"
    if "\<not> compare bc p (password u)"
    using assms(1,2) that by (simp add: post_login_known_user compareSync_def)
  have "post_login bc db (Some n) pw \<noteq> post_login bc db (Some n) (Some (JStr p))"
    if "\<not> compare bc p (password u)"
  proof
    assume "post_login bc db (Some n) pw = post_login bc db (Some n) (Some (JStr p))"
    then have "status (post_login bc db (Some n) pw) = 404"
      using wrong [OF that] by simp
    with malformed show False by simp
  qed
  with malformed wrong show ?thesis by blast
qed

theorem post_login_malformed_password_witness:
  "post_login toy_bcrypt demo (Some ''alice'') None =
     \<lparr>status = 500, success = False, response = Err ArgumentError, res_message = None\<rparr>
   \<and> post_login toy_bcrypt demo (Some ''alice'') (Some (JNum 12345)) =
     \<lparr>status = 500, success = False, response = Err ArgumentError, res_message = None\<rparr>
   \<and> status (post_login toy_bcrypt demo (Some ''alice'') (Some (JStr ''rabbit''))) = 404"
proof -
  have on: "online demo"
    by (simp add: demo_def)
  have who: "find (\<lambda>u. Some (username u) = Some ''alice'') (users demo) = Some alice"
    by (simp add: demo_def alice_def)
  have wrong: "\<not> compare toy_bcrypt ''rabbit'' (password alice)"
    by (simp add: toy_bcrypt_def alice_def)
  have absent: "\<forall>s. (None :: json option) \<noteq> Some (JStr s)"
    by simp
  have number: "\<forall>s. Some (JNum 12345) \<noteq> Some (JStr s)"
    by simp
  show ?thesis
    using post_login_malformed_password [OF on who absent, of toy_bcrypt "''rabbit''"]
      post_login_malformed_password [OF on who number, of toy_bcrypt "''rabbit''"] wrong
    by simp
qed

lemma User_save_valid:
  assumes "online db"
    and "2 \<le> length n" and "length n \<le> 20" and "5 \<le> length hashed"
    and "n \<notin> set (map username (users db))"
    and "ObjectId e \<notin> set (map user_id (users db))"
  shows "User_save db e (Some n) hashed =
           Inr (\<lparr>user_id = ObjectId e, username = n, password = hashed,
                 accessToken = randomBytes e\<rparr>,
                db\<lparr>users := users db @
                  [\<lparr>user_id = ObjectId e, username = n, password = hashed,
                    accessToken = randomBytes e\<rparr>]\<rparr>)"
proof -
  from assms(2,4) have "n \<noteq> []" and "hashed \<noteq> []"
    by auto
  with assms show ?thesis
    by (simp add: User_save_def Let_def)
qed

text \<open>What \<open>POST /register\<close> stores as \<open>password\<close> is the hash of the body's string,
  whatever its length.\<close>

lemma post_register_stores_hash:
  assumes "post_register bc db e uname pw = (r, db')"
  shows "db' = db \<or>
         (\<exists>n s. uname = Some n \<and> pw = Some (JStr s)
            \<and> db' = db\<lparr>users := users db @
                  [\<lparr>user_id = ObjectId e, username = n,
                    password = hash bc s (genSaltSync e), accessToken = randomBytes e\<rparr>]\<rparr>)"
  using assms
  by (auto simp: post_register_def hashSync_def User_save_def Let_def
      split: option.splits json.splits if_splits)

text \<open>
  C3. A registration whose password has fewer than 5 characters succeeds when the
  username is valid and new: \<open>minlength: 5\<close> is checked on the value given to the
  model, which is the bcrypt hash (60 characters with the real library), not the
  password. The user is stored, with the hash as its password, and the answer is 201.
\<close>

theorem post_register_short_password:
  assumes "online db"
    and "length p < 5"
    and "5 \<le> length (hash bc p (genSaltSync e))"
    and "2 \<le> length n" and "length n \<le> 20"
    and "n \<notin> set (map username (users db))"
    and "ObjectId e \<notin> set (map user_id (users db))"
  shows "post_register bc db e (Some n) (Some (JStr p)) =
           (\<lparr>status = 201, success = True,
             response = UserInfo n (ObjectId e) (randomBytes e), res_message = None\<rparr>,
            db\<lparr>users := users db @
              [\<lparr>user_id = ObjectId e, username = n, password = hash bc p (genSaltSync e),
                accessToken = randomBytes e\<rparr>]\<rparr>)"
  using User_save_valid [OF assms(1,4,5,3,6,7)]
  by (simp add: post_register_def hashSync_def)

theorem post_register_short_password_witness:
  "length ''abc'' < (5::nat)
   \<and> post_register toy_bcrypt demo request_env (Some ''carol'') (Some (JStr ''abc'')) =
       (\<lparr>status = 201, success = True, response = UserInfo ''carol'' ''9f00'' ''c0ffee'',
         res_message = None\<rparr>,
        demo\<lparr>users := [alice, bob,
          \<lparr>user_id = ''9f00'', username = ''carol'', password = ''saltabc'',
            accessToken = ''c0ffee''\<rparr>]\<rparr>)"
proof -
  have on: "online demo"
    by (simp add: demo_def)
  have short: "length ''abc'' < (5::nat)"
    by simp
  have long: "5 \<le> length (hash toy_bcrypt ''abc'' (genSaltSync request_env))"
    by (simp add: toy_bcrypt_def request_env_def)
  have n1: "2 \<le> length ''carol''" and n2: "length ''carol'' \<le> 20"
    by simp_all
  have new: "''carol'' \<notin> set (map username (users demo))"
    by (simp add: demo_def alice_def bob_def)
  have fresh: "ObjectId request_env \<notin> set (map user_id (users demo))"
    by (simp add: demo_def alice_def bob_def request_env_def)
  show ?thesis
    using post_register_short_password [OF on short long n1 n2 new fresh]
    by (simp add: toy_bcrypt_def request_env_def demo_def)
qed

section \<open>Properties of the wine routes\<close>

lemma update_first_split:
  "find P xs = Some x \<Longrightarrow>
     \<exists>pre post. xs = pre @ x # post \<and> update_first P f xs = pre @ f x # post"
proof (induction xs)
  case Nil
  then show ?case by simp
next
  case (Cons y ys)
  show ?case
  proof (cases "P y")
    case True
    with Cons.prems have "y = x" by simp
    with True have "y # ys = [] @ x # ys \<and> update_first P f (y # ys) = [] @ f x # ys"
      by simp
    then show ?thesis by blast
  next
    case False
    with Cons obtain pre post where "ys = pre @ x # post"
      "update_first P f ys = pre @ f x # post"
      by auto
    with False have "y # ys = (y # pre) @ x # post
        \<and> update_first P f (y # ys) = (y # pre) @ f x # post"
      by simp
    then show ?thesis by blast
  qed
qed

text \<open>
  C7. With the store answering and an \<open>id\<close> that a stored wine has: \<open>PATCH /wines/:id\<close>
  answers 200 with the wine as updated, and the collection after it is the collection
  before it with that one document replaced by the updated one. The updated document is
  the old one with \<open>description\<close> set (to the trimmed \<open>newDescription\<close>): its \<open>_id\<close>,
  \<open>name\<close> and \<open>createdAt\<close> are the old ones, and so are the fields the schema's variant
  adds (\<open>price\<close>, \<open>variety\<close>, \<open>country\<close> in \<open>part_001\<close>; \<open>rating\<close>, \<open>kind\<close> in
  \<open>server.js\<close>). Users and secrets are untouched.
\<close>

theorem patch_wines_frame:
  assumes "online db"
    and "find (\<lambda>w. wine_id w = i) (wines db) = Some w"
  shows "\<exists>pre post. wines db = pre @ w # post
           \<and> patch_wines db (Some i) newDescription =
               (\<lparr>status = 200, success = True,
                 response = WineDoc (Some (w\<lparr>description := trim newDescription\<rparr>)),
                 res_message = Some ''Updated successfully''\<rparr>,
                db\<lparr>wines := pre @ w\<lparr>description := trim newDescription\<rparr> # post\<rparr>)
           \<and> wine_id (w\<lparr>description := trim newDescription\<rparr>) = wine_id w
           \<and> name (w\<lparr>description := trim newDescription\<rparr>) = name w
           \<and> createdAt (w\<lparr>description := trim newDescription\<rparr>) = createdAt w
           \<and> wine_base.more (w\<lparr>description := trim newDescription\<rparr>) = wine_base.more w"
proof -
  obtain pre post where split: "wines db = pre @ w # post"
    "update_first (\<lambda>w. wine_id w = i) (\<lambda>w. w\<lparr>description := trim newDescription\<rparr>) (wines db)
       = pre @ w\<lparr>description := trim newDescription\<rparr> # post"
    using update_first_split [OF assms(2)] by blast
  have "patch_wines db (Some i) newDescription =
               (\<lparr>status = 200, success = True,
                 response = WineDoc (Some (w\<lparr>description := trim newDescription\<rparr>)),
                 res_message = Some ''Updated successfully''\<rparr>,
                db\<lparr>wines := pre @ w\<lparr>description := trim newDescription\<rparr> # post\<rparr>)"
    using assms split(2) by (simp add: patch_wines_def Wine_findByIdAndUpdate_def)
  with split(1) show ?thesis by auto
qed

theorem patch_wines_frame_witness:
  "patch_wines demo (Some ''77a2'') ''  Bold and dry '' =
     (\<lparr>status = 200, success = True,
       response = WineDoc (Some \<lparr>wine_id = ''77a2'', name = ''Albarino'',
         description = ''Bold and dry'', createdAt = 1000, price = Some 12,
         variety = ''white'', country = Some ''Spain''\<rparr>),
       res_message = Some ''Updated successfully''\<rparr>,
      demo\<lparr>wines := [tinto, fresh_wine, \<lparr>wine_id = ''77a2'', name = ''Albarino'',
         description = ''Bold and dry'', createdAt = 1000, price = Some 12,
         variety = ''white'', country = Some ''Spain''\<rparr>]\<rparr>)
   \<and> patch_wines demo_v1 (Some ''11c0'') ''Better'' =
     (\<lparr>status = 200, success = True,
       response = WineDoc (Some \<lparr>wine_id = ''11c0'', name = ''House red'',
         description = ''Better'', createdAt = 900, rating = 3, kind = ''red''\<rparr>),
       res_message = Some ''Updated successfully''\<rparr>,
      demo_v1\<lparr>wines := [\<lparr>wine_id = ''11c0'', name = ''House red'',
         description = ''Better'', createdAt = 900, rating = 3, kind = ''red''\<rparr>]\<rparr>)"
proof -
  have on: "online demo" and on1: "online demo_v1"
    by (simp_all add: demo_def demo_v1_def)
  have w: "find (\<lambda>w. wine_id w = ''77a2'') (wines demo) = Some albarino"
    by (simp add: demo_def tinto_def fresh_wine_def albarino_def)
  have w1: "find (\<lambda>w. wine_id w = ''11c0'') (wines demo_v1) = Some house_red"
    by (simp add: demo_v1_def house_red_def)
  have t: "trim ''  Bold and dry '' = ''Bold and dry''" and t1: "trim ''Better'' = ''Better''"
    by (simp_all add: trim_def is_space_def white_space_def)
  obtain pre post where a: "wines demo = pre @ albarino # post"
    "patch_wines demo (Some ''77a2'') ''  Bold and dry '' =
       (\<lparr>status = 200, success = True,
         response = WineDoc (Some (albarino\<lparr>description := trim ''  Bold and dry ''\<rparr>)),
         res_message = Some ''Updated successfully''\<rparr>,
        demo\<lparr>wines := pre @ albarino\<lparr>description := trim ''  Bold and dry ''\<rparr> # post\<rparr>)"
    using patch_wines_frame [OF on w, of "''  Bold and dry ''"] by blast
  from a(1) have "[tinto, fresh_wine, albarino] = pre @ albarino # post"
    by (simp add: demo_def)
  then have "pre = [tinto, fresh_wine] \<and> post = []"
    by (auto simp: Cons_eq_append_conv append_eq_Cons_conv tinto_def fresh_wine_def albarino_def)
  with a(2) have first: "patch_wines demo (Some ''77a2'') ''  Bold and dry '' =
       (\<lparr>status = 200, success = True,
         response = WineDoc (Some (albarino\<lparr>description := ''Bold and dry''\<rparr>)),
         res_message = Some ''Updated successfully''\<rparr>,
        demo\<lparr>wines := [tinto, fresh_wine, albarino\<lparr>description := ''Bold and dry''\<rparr>]\<rparr>)"
    by (simp add: t)
  obtain pre1 post1 where b: "wines demo_v1 = pre1 @ house_red # post1"
    "patch_wines demo_v1 (Some ''11c0'') ''Better'' =
       (\<lparr>status = 200, success = True,
         response = WineDoc (Some (house_red\<lparr>description := trim ''Better''\<rparr>)),
         res_message = Some ''Updated successfully''\<rparr>,
        demo_v1\<lparr>wines := pre1 @ house_red\<lparr>description := trim ''Better''\<rparr> # post1\<rparr>)"
    using patch_wines_frame [OF on1 w1, of "''Better''"] by blast
  from b(1) have "pre1 = [] \<and> post1 = []"
    by (auto simp: demo_v1_def Cons_eq_append_conv append_eq_Cons_conv)
  with b(2) have second: "patch_wines demo_v1 (Some ''11c0'') ''Better'' =
       (\<lparr>status = 200, success = True,
         response = WineDoc (Some (house_red\<lparr>description := ''Better''\<rparr>)),
         res_message = Some ''Updated successfully''\<rparr>,
        demo_v1\<lparr>wines := [house_red\<lparr>description := ''Better''\<rparr>]\<rparr>)"
    by (simp add: t1)
  show ?thesis
    using first second by (simp add: albarino_def house_red_def)
qed

subsection \<open>The filters of the list\<close>

lemma matches_here_prefix: "matches_here p v = prefix p v"
proof (induction p arbitrary: v)
  case Nil
  then show ?case by simp
next
  case (Cons a p)
  then show ?case by (cases v) auto
qed

lemma search_sublist: "search p v = sublist p v"
proof (induction v)
  case Nil
  then show ?case by (simp add: matches_here_prefix)
next
  case (Cons c v)
  then show ?case by (simp add: matches_here_prefix sublist_Cons_right)
qed

text \<open>A pattern without syntax characters matches a text exactly when the text
  contains it.\<close>

lemma RegExp_plain:
  assumes "list_all (\<lambda>c. \<not> is_syntax_char c) s"
  shows "RegExp engine (Some s) = Inr (sublist s)"
proof -
  have "search s = sublist s"
    by (simp add: search_sublist fun_eq_iff)
  with assms show ?thesis
    by (simp add: RegExp_def)
qed

lemma RegExp_undefined: "RegExp engine None = Inr (\<lambda>v. True)"
proof -
  have "search [] = (\<lambda>v. True)"
    by (simp add: search_sublist fun_eq_iff)
  then show ?thesis
    by (simp add: RegExp_def)
qed

lemma castNumber_priceQuery:
  "price' = None \<and> T = 0 \<or> (\<exists>p. price' = Some p \<and> p \<noteq> [] \<and> Number p = Some T) \<Longrightarrow>
     castNumber Number (priceQuery price') = Inr T"
  by (auto simp: castNumber_def priceQuery_def)

lemma get_wines_found:
  assumes "online db"
    and "RegExp engine variety' = Inr varietyRegex"
    and "castNumber Number (priceQuery price') = Inr T"
  shows "get_wines engine Number db variety' price' =
           Some \<lparr>status = 200, success = True,
                 response = Wines (filter (\<lambda>w. varietyRegex (variety w)
                      \<and> (case price w of None \<Rightarrow> False | Some p \<Rightarrow> T < p)) (wines db)),
                 res_message = None\<rparr>"
  using assms by (simp add: get_wines_def Wine_find_def)

text \<open>With a numeric \<open>price\<close> and no \<open>variety\<close>, the list is the stored wines that have
  a price greater than it; without \<open>price\<close> the threshold is 0.\<close>

lemma get_wines_price_only:
  assumes "online db"
    and "price' = None \<and> T = 0 \<or> (\<exists>p. price' = Some p \<and> p \<noteq> [] \<and> Number p = Some T)"
  shows "get_wines engine Number db None price' =
           Some \<lparr>status = 200, success = True,
                 response = Wines (filter (\<lambda>w. \<exists>p. price w = Some p \<and> T < p) (wines db)),
                 res_message = None\<rparr>"
proof -
  have "(\<lambda>w::wine_doc. True \<and> (case price w of None \<Rightarrow> False | Some p \<Rightarrow> T < p))
      = (\<lambda>w. \<exists>p. price w = Some p \<and> T < p)"
    by (auto simp: fun_eq_iff split: option.splits)
  then show ?thesis
    using get_wines_found [OF assms(1) RegExp_undefined castNumber_priceQuery [OF assms(2)]]
    by simp
qed

text \<open>
  C4. \<open>GET /wines\<close> without parameters on the small state: the wine that has no price
  (as every wine that \<open>POST /wines\<close> creates) is stored and is not in the list, since
  \<open>$gt: 0\<close> matches no document without a price. The claim says every wine is eligible
  then, those with no price included.
\<close>

theorem get_wines_default_skips_unpriced:
  "get_wines engine Number demo None None =
     Some \<lparr>status = 200, success = True, response = Wines [tinto, albarino],
           res_message = None\<rparr>
   \<and> wines demo = [tinto, fresh_wine, albarino] \<and> price fresh_wine = None"
proof -
  have on: "online demo"
    by (simp add: demo_def)
  have t: "(None :: string option) = None \<and> (0::real) = 0
      \<or> (\<exists>p. (None :: string option) = Some p \<and> p \<noteq> [] \<and> Number p = Some 0)"
    by simp
  have "filter (\<lambda>w. \<exists>p. price w = Some p \<and> 0 < p) (wines demo) = [tinto, albarino]"
    by (simp add: demo_def tinto_def fresh_wine_def albarino_def)
  then show ?thesis
    using get_wines_price_only [OF on t, of engine]
    by (simp add: demo_def fresh_wine_def)
qed

text \<open>
  C5, as stated, fails: the \<open>variety\<close> parameter is a pattern. \<open>^r\<close> selects the wine
  of variety \<open>red\<close>, which does not contain \<open>^r\<close>.
\<close>

theorem get_wines_variety_counterexample:
  "get_wines no_engine Number_10 demo (Some ''^r'') None =
     Some \<lparr>status = 200, success = True, response = Wines [tinto], res_message = None\<rparr>
   \<and> variety tinto = ''red'' \<and> \<not> sublist ''^r'' (variety tinto)"
proof -
  have rx: "RegExp no_engine (Some ''^r'') = Inr (matches_here ''r'')"
    by (simp add: RegExp_def is_syntax_char_def)
  have num: "castNumber Number_10 (priceQuery None) = Inr 0"
    by (simp add: castNumber_def priceQuery_def)
  have on: "online demo"
    by (simp add: demo_def)
  have "filter (\<lambda>w. matches_here ''r'' (variety w)
          \<and> (case price w of None \<Rightarrow> False | Some p \<Rightarrow> 0 < p)) (wines demo) = [tinto]"
    by (simp add: demo_def tinto_def fresh_wine_def albarino_def)
  then have "get_wines no_engine Number_10 demo (Some ''^r'') None =
     Some \<lparr>status = 200, success = True, response = Wines [tinto], res_message = None\<rparr>"
    using get_wines_found [OF on rx num] by simp
  moreover have "\<not> sublist ''^r'' ''red''"
    by (simp add: sublist_code)
  ultimately show ?thesis
    by (simp add: tinto_def)
qed

text \<open>
  C5, amended. With the store answering, a \<open>variety\<close> parameter \<open>s\<close> that has none of
  the characters \<open>^ $ \ . * + ? ( ) [ ] { } |\<close>, and a threshold \<open>T\<close> that is the
  numeric \<open>price\<close> parameter, or 0 when there is none: the answer is 200 with a list of
  stored wines; every wine of the list has a variety that contains \<open>s\<close>
  (case-sensitively), so a wine whose variety does not contain \<open>s\<close> is excluded; the
  wines of the list that have a price are exactly, in the store's order, the stored wines
  whose variety contains \<open>s\<close> and whose price is greater than \<open>T\<close>; and when the request
  has a \<open>price\<close> parameter the list is exactly those wines: the two filters are conjoined.
\<close>

theorem get_wines_plain_variety:
  assumes "online db"
    and "list_all (\<lambda>c. \<not> is_syntax_char c) s"
    and "price' = None \<and> T = 0 \<or> (\<exists>p. price' = Some p \<and> p \<noteq> [] \<and> Number p = Some T)"
  shows "\<exists>found. get_wines engine Number db (Some s) price' =
             Some \<lparr>status = 200, success = True, response = Wines found, res_message = None\<rparr>
           \<and> set found \<subseteq> set (wines db)
           \<and> (\<forall>w\<in>set found. sublist s (variety w))
           \<and> filter (\<lambda>w. price w \<noteq> None) found =
               filter (\<lambda>w. sublist s (variety w) \<and> (\<exists>p. price w = Some p \<and> T < p)) (wines db)
           \<and> (price' \<noteq> None \<longrightarrow>
               found =
               filter (\<lambda>w. sublist s (variety w) \<and> (\<exists>p. price w = Some p \<and> T < p)) (wines db))"
proof -
  let ?found = "filter (\<lambda>w. sublist s (variety w)
      \<and> (case price w of None \<Rightarrow> False | Some p \<Rightarrow> T < p)) (wines db)"
  have "get_wines engine Number db (Some s) price' =
      Some \<lparr>status = 200, success = True, response = Wines ?found, res_message = None\<rparr>"
    using get_wines_found [OF assms(1) RegExp_plain [OF assms(2)]
        castNumber_priceQuery [OF assms(3)]] .
  moreover have "set ?found \<subseteq> set (wines db)"
    by auto
  moreover have "\<forall>w\<in>set ?found. sublist s (variety w)"
    by simp
  moreover have "filter (\<lambda>w. price w \<noteq> None) ?found =
      filter (\<lambda>w. sublist s (variety w) \<and> (\<exists>p. price w = Some p \<and> T < p)) (wines db)"
    by (induction "wines db") (auto split: option.splits intro: filter_cong)
  moreover have "?found =
      filter (\<lambda>w. sublist s (variety w) \<and> (\<exists>p. price w = Some p \<and> T < p)) (wines db)"
    by (rule filter_cong) (auto split: option.splits)
  ultimately show ?thesis
    by blast
qed

theorem get_wines_plain_variety_witness:
  "list_all (\<lambda>c. \<not> is_syntax_char c) ''whi''
   \<and> get_wines no_engine Number_10 demo (Some ''whi'') (Some ''10'') =
       Some \<lparr>status = 200, success = True, response = Wines [albarino], res_message = None\<rparr>
   \<and> (\<exists>found. get_wines no_engine Number_10 demo (Some ''e'') None =
               Some \<lparr>status = 200, success = True, response = Wines found,
                     res_message = None\<rparr>
             \<and> list_all (\<lambda>w. sublist ''e'' (variety w)) found
             \<and> filter (\<lambda>w. price w \<noteq> None) found = [tinto, albarino])"
proof -
  have on: "online demo"
    by (simp add: demo_def)
  have plain: "list_all (\<lambda>c. \<not> is_syntax_char c) ''whi''"
    and plain': "list_all (\<lambda>c. \<not> is_syntax_char c) ''e''"
    by (simp_all add: is_syntax_char_def)
  have ten: "Some ''10'' = None \<and> (10::real) = 0
      \<or> (\<exists>p. Some ''10'' = Some p \<and> p \<noteq> [] \<and> Number_10 p = Some 10)"
    by (simp add: Number_10_def)
  have zero: "(None :: string option) = None \<and> (0::real) = 0
      \<or> (\<exists>p. (None :: string option) = Some p \<and> p \<noteq> [] \<and> Number_10 p = Some 0)"
    by simp
  have sel: "filter (\<lambda>w. sublist ''whi'' (variety w) \<and> (\<exists>p. price w = Some p \<and> 10 < p))
      (wines demo) = [albarino]"
    by (simp add: demo_def tinto_def fresh_wine_def albarino_def sublist_code)
  have sel': "filter (\<lambda>w. sublist ''e'' (variety w) \<and> (\<exists>p. price w = Some p \<and> 0 < p))
      (wines demo) = [tinto, albarino]"
    by (simp add: demo_def tinto_def fresh_wine_def albarino_def sublist_code)
  have given: "Some ''10'' \<noteq> (None :: string option)"
    by simp
  have first: "get_wines no_engine Number_10 demo (Some ''whi'') (Some ''10'') =
       Some \<lparr>status = 200, success = True, response = Wines [albarino], res_message = None\<rparr>"
    using get_wines_plain_variety [OF on plain ten, of no_engine] given
    unfolding sel by blast
  have second: "\<exists>found. get_wines no_engine Number_10 demo (Some ''e'') None =
               Some \<lparr>status = 200, success = True, response = Wines found,
                     res_message = None\<rparr>
             \<and> list_all (\<lambda>w. sublist ''e'' (variety w)) found
             \<and> filter (\<lambda>w. price w \<noteq> None) found = [tinto, albarino]"
    using get_wines_plain_variety [OF on plain' zero, of no_engine]
    unfolding sel' list_all_iff by blast
  from plain first second show ?thesis
    by blast
qed

lemma Wine_save_createdAt:
  "Wine_save db e nm descr var = Inr (w, db') \<Longrightarrow>
     createdAt w = default_createdAt db \<and> default_createdAt db' = default_createdAt db"
  by (auto simp: Wine_save_def Let_def split: option.splits if_splits)

text \<open>Whatever the clock says, the wine that \<open>POST /wines\<close> creates has the schema's one
  default Date as \<open>createdAt\<close>, and the default is the same for the next request.\<close>

lemma post_wines_createdAt:
  "post_wines db e nm descr var = (r, db') \<Longrightarrow> response r = WineDoc (Some w) \<Longrightarrow>
     createdAt w = default_createdAt db \<and> default_createdAt db' = default_createdAt db"
  by (auto simp: post_wines_def split: sum.splits dest: Wine_save_createdAt)

lemma Wine_save_valid:
  assumes "online db"
    and "n \<noteq> []" and "v \<noteq> []" and "2 \<le> length (trim d)" and "length (trim d) \<le> 300"
    and "ObjectId e \<notin> set (map wine_id (wines db))"
    and "n \<notin> set (map name (wines db))"
  shows "Wine_save db e (Some n) (Some d) (Some v) =
           Inr (\<lparr>wine_id = ObjectId e, name = n, description = trim d,
                 createdAt = default_createdAt db, price = None, variety = v, country = None\<rparr>,
                db\<lparr>wines := wines db @
                  [\<lparr>wine_id = ObjectId e, name = n, description = trim d,
                    createdAt = default_createdAt db, price = None, variety = v,
                    country = None\<rparr>]\<rparr>)"
proof -
  from assms(4) have "trim d \<noteq> []"
    by auto
  with assms show ?thesis
    by (simp add: Wine_save_def Let_def)
qed

text \<open>
  C8. Two wines created through \<open>POST /wines\<close> on the small state, the first when the
  clock says 2000 and the second when it says 3000: both are stored with \<open>createdAt\<close>
  1000, the Date the schema was built with, not with the time of their creation (the
  claim, and the comment in the schema, say the time of creation).
\<close>

theorem post_wines_createdAt_not_now:
  "now request_env = 2000 \<and> now later_env = 3000
   \<and> fst (post_wines demo request_env (Some ''Rioja'') (Some '' A new one '') (Some ''red'')) =
       \<lparr>status = 201, success = True,
         response = WineDoc (Some \<lparr>wine_id = ''9f00'', name = ''Rioja'',
           description = ''A new one'', createdAt = 1000, price = None, variety = ''red'',
           country = None\<rparr>),
         res_message = Some ''Wine item successfully created''\<rparr>
   \<and> fst (post_wines
            (snd (post_wines demo request_env (Some ''Rioja'') (Some '' A new one '')
                    (Some ''red'')))
            later_env (Some ''Verdejo'') (Some ''Another one'') (Some ''white'')) =
       \<lparr>status = 201, success = True,
         response = WineDoc (Some \<lparr>wine_id = ''9f01'', name = ''Verdejo'',
           description = ''Another one'', createdAt = 1000, price = None, variety = ''white'',
           country = None\<rparr>),
         res_message = Some ''Wine item successfully created''\<rparr>"
proof -
  let ?rioja = "\<lparr>wine_id = ''9f00'', name = ''Rioja'', description = ''A new one'',
      createdAt = 1000, price = None, variety = ''red'', country = None\<rparr>"
  let ?db1 = "demo\<lparr>wines := wines demo @ [?rioja]\<rparr>"
  have t1: "trim '' A new one '' = ''A new one''" and t2: "trim ''Another one'' = ''Another one''"
    by (simp_all add: trim_def is_space_def white_space_def)
  have on: "online demo" and d: "default_createdAt demo = 1000"
    by (simp_all add: demo_def)
  have ids: "ObjectId request_env \<notin> set (map wine_id (wines demo))"
    and names: "''Rioja'' \<notin> set (map name (wines demo))"
    by (simp_all add: demo_def tinto_def fresh_wine_def albarino_def request_env_def)
  have first: "Wine_save demo request_env (Some ''Rioja'') (Some '' A new one '') (Some ''red'')
      = Inr (?rioja, ?db1)"
    using Wine_save_valid [OF on _ _ _ _ ids names, of "''red''" "'' A new one ''"]
    by (simp add: t1 d request_env_def)
  have on1: "online ?db1" and d1: "default_createdAt ?db1 = 1000"
    by (simp_all add: demo_def)
  have ids1: "ObjectId later_env \<notin> set (map wine_id (wines ?db1))"
    and names1: "''Verdejo'' \<notin> set (map name (wines ?db1))"
    by (simp_all add: demo_def tinto_def fresh_wine_def albarino_def later_env_def)
  have second: "Wine_save ?db1 later_env (Some ''Verdejo'') (Some ''Another one'') (Some ''white'')
      = Inr (\<lparr>wine_id = ''9f01'', name = ''Verdejo'', description = ''Another one'',
               createdAt = 1000, price = None, variety = ''white'', country = None\<rparr>,
             ?db1\<lparr>wines := wines ?db1 @
               [\<lparr>wine_id = ''9f01'', name = ''Verdejo'', description = ''Another one'',
                 createdAt = 1000, price = None, variety = ''white'', country = None\<rparr>]\<rparr>)"
    using Wine_save_valid [OF on1 _ _ _ _ ids1 names1, of "''white''" "''Another one''"]
    by (simp add: t2 d1 later_env_def)
  have nows: "now request_env = 2000 \<and> now later_env = 3000"
    by (simp add: request_env_def later_env_def)
  have p1: "post_wines demo request_env (Some ''Rioja'') (Some '' A new one '') (Some ''red'')
      = (\<lparr>status = 201, success = True, response = WineDoc (Some ?rioja),
          res_message = Some ''Wine item successfully created''\<rparr>, ?db1)"
    by (simp add: post_wines_def first)
  have p2: "post_wines ?db1 later_env (Some ''Verdejo'') (Some ''Another one'') (Some ''white'')
      = (\<lparr>status = 201, success = True,
          response = WineDoc (Some \<lparr>wine_id = ''9f01'', name = ''Verdejo'',
            description = ''Another one'', createdAt = 1000, price = None,
            variety = ''white'', country = None\<rparr>),
          res_message = Some ''Wine item successfully created''\<rparr>,
         ?db1\<lparr>wines := wines ?db1 @
               [\<lparr>wine_id = ''9f01'', name = ''Verdejo'', description = ''Another one'',
                 createdAt = 1000, price = None, variety = ''white'', country = None\<rparr>]\<rparr>)"
    by (simp add: post_wines_def second)
  show ?thesis
    unfolding p1 snd_conv p2 fst_conv using nows by simp
qed

end
